theory Spec2Isabelle
  imports Main
begin

section \<open>Python strings\<close>

text \<open>
  The segmenter of \<^verbatim>\<open>script.py\<close> works on the text of HTML elements. A Python
  \<^verbatim>\<open>str\<close> is modelled as a \<^typ>\<open>string\<close>, one \<^typ>\<open>char\<close> per code point, which covers
  the code points below 256. On that range \<^verbatim>\<open>str.isspace\<close> and the regular
  expression class \<^verbatim>\<open>\s\<close> hold of the twelve characters listed below, \<^verbatim>\<open>\d\<close>
  holds of the ten ASCII digits, and \<^verbatim>\<open>re.IGNORECASE\<close> identifies an ASCII letter
  with its other case only.
\<close>

definition whitespace :: "char list" where
  "whitespace = [CHR 0x09, CHR 0x0A, CHR 0x0B, CHR 0x0C, CHR 0x0D,
                 CHR 0x1C, CHR 0x1D, CHR 0x1E, CHR 0x1F, CHR 0x20, CHR 0x85, CHR 0xA0]"

definition isspace :: "char \<Rightarrow> bool" where
  "isspace c \<longleftrightarrow> c \<in> set whitespace"

definition isdigit :: "char \<Rightarrow> bool" where
  "isdigit c \<longleftrightarrow> c \<in> set ''0123456789''"

text \<open>\<^verbatim>\<open>s.strip()\<close>\<close>

definition strip :: "string \<Rightarrow> string" where
  "strip s = rev (dropWhile isspace (rev (dropWhile isspace s)))"

text \<open>\<^verbatim>\<open>sep.join(xs)\<close>\<close>

fun join :: "string \<Rightarrow> string list \<Rightarrow> string" where
  "join sep [] = []"
| "join sep [x] = x"
| "join sep (x # y # ys) = x @ sep @ join sep (y # ys)"

text \<open>\<^verbatim>\<open>s[:n]\<close> for a Python integer \<^verbatim>\<open>n\<close>: a negative bound counts from the end.\<close>

definition slice_to :: "'a list \<Rightarrow> int \<Rightarrow> 'a list" where
  "slice_to s n = (if 0 \<le> n then take (nat n) s else take (length s - nat (- n)) s)"

text \<open>The decimal numeral an f-string prints for a non-negative integer.\<close>

definition digit_char :: "nat \<Rightarrow> char" where
  "digit_char d = ''0123456789'' ! d"

function str_nat :: "nat \<Rightarrow> string" where
  "str_nat n = (if n < 10 then [digit_char n] else str_nat (n div 10) @ [digit_char (n mod 10)])"
  by pat_completeness auto
termination
  by (relation "measure id") auto

declare str_nat.simps [simp del]

subsection \<open>The three regular expressions\<close>

definition lower :: "char \<Rightarrow> char" where
  "lower c = (case map_of (zip ''ABCDEFGHIJKLMNOPQRSTUVWXYZ'' ''abcdefghijklmnopqrstuvwxyz'') c of
                Some l \<Rightarrow> l | None \<Rightarrow> c)"

text \<open>
  \<open>match_literal p s\<close> matches the lower-case literal \<open>p\<close> at the start of \<open>s\<close>,
  ignoring case, and returns what follows the match.
\<close>

fun match_literal :: "string \<Rightarrow> string \<Rightarrow> string option" where
  "match_literal [] s = Some s"
| "match_literal (p # ps) [] = None"
| "match_literal (p # ps) (c # cs) = (if lower c = p then match_literal ps cs else None)"

text \<open>The tail \<^verbatim>\<open>\s*:\s*\<close> shared by the three patterns.\<close>

definition match_colon :: "string \<Rightarrow> string option" where
  "match_colon s = (case dropWhile isspace s of
                      [] \<Rightarrow> None
                    | c # r \<Rightarrow> if c = CHR '':'' then Some (dropWhile isspace r) else None)"

text \<open>\<^verbatim>\<open>re.sub(r'^slide\s*\d+\s*:\s*', '', text, flags=re.IGNORECASE)\<close>\<close>

definition sub_slide_prefix :: "string \<Rightarrow> string" where
  "sub_slide_prefix text =
     (case match_literal ''slide'' text of
        None \<Rightarrow> text
      | Some r \<Rightarrow>
          (let r2 = dropWhile isspace r in
           if takeWhile isdigit r2 = [] then text
           else (case match_colon (dropWhile isdigit r2) of None \<Rightarrow> text | Some rest \<Rightarrow> rest)))"

text \<open>\<^verbatim>\<open>re.sub(r'^subtitle\s*:\s*', '', subheading, flags=re.IGNORECASE)\<close>\<close>

definition sub_subtitle_prefix :: "string \<Rightarrow> string" where
  "sub_subtitle_prefix text =
     (case match_literal ''subtitle'' text of
        None \<Rightarrow> text
      | Some r \<Rightarrow> (case match_colon r of None \<Rightarrow> text | Some rest \<Rightarrow> rest))"

text \<open>
  \<^verbatim>\<open>speaker notes\s*:\s*\<close> matched at the start of \<open>s\<close>; the result is what follows
  the match.
\<close>

definition match_marker :: "string \<Rightarrow> string option" where
  "match_marker s = (case match_literal ''speaker notes'' s of
                       None \<Rightarrow> None
                     | Some r \<Rightarrow> match_colon r)"

text \<open>
  \<^verbatim>\<open>re.split(r"speaker notes\s*:\s*", text, flags=re.IGNORECASE, maxsplit=1)\<close>:
  the text before and after the leftmost match, \<open>None\<close> where
  \<^verbatim>\<open>re.search\<close> of the same pattern finds nothing.
\<close>

fun split_marker :: "string \<Rightarrow> (string \<times> string) option" where
  "split_marker [] = None"
| "split_marker (c # cs) =
     (case match_marker (c # cs) of
        Some rest \<Rightarrow> Some ([], rest)
      | None \<Rightarrow> (case split_marker cs of
                   None \<Rightarrow> None
                 | Some (before, after) \<Rightarrow> Some (c # before, after)))"

section \<open>The parsed document\<close>

text \<open>
  BeautifulSoup's tree: a text node, or a tag with its name, its \<^verbatim>\<open>class\<close> list and
  its children. \<open>Decomposed\<close> marks the place of an element that \<^verbatim>\<open>decompose()\<close>
  took out of the tree: it has no name, no text and no children, and no search
  finds it. An element is identified by its position, the list of child indices
  leading to it from \<^verbatim>\<open>content_div\<close>; leaving \<open>Decomposed\<close> behind keeps the
  positions of the other elements fixed.
\<close>

datatype node = NavigableString string | Tag string "string list" "node list" | Decomposed

type_synonym path = "nat list"

fun lookup :: "node \<Rightarrow> path \<Rightarrow> node option" where
  "lookup n [] = Some n"
| "lookup (Tag name cls ch) (i # p) = (if i < length ch then lookup (ch ! i) p else None)"
| "lookup (NavigableString s) (i # p) = None"
| "lookup Decomposed (i # p) = None"

text \<open>\<^verbatim>\<open>el.decompose()\<close>; on an element already gone with an ancestor it changes nothing.\<close>

fun decompose :: "node \<Rightarrow> path \<Rightarrow> node" where
  "decompose n [] = Decomposed"
| "decompose (Tag name cls ch) (i # p) =
     (if i < length ch then Tag name cls (ch[i := decompose (ch ! i) p]) else Tag name cls ch)"
| "decompose (NavigableString s) (i # p) = NavigableString s"
| "decompose Decomposed (i # p) = Decomposed"

text \<open>The strings \<^verbatim>\<open>get_text(strip=True)\<close> collects: stripped, the empty ones left out.\<close>

fun all_strings :: "node \<Rightarrow> string list" where
  "all_strings (NavigableString s) = (if strip s = [] then [] else [strip s])"
| "all_strings (Tag name cls ch) = concat (map all_strings ch)"
| "all_strings Decomposed = []"

definition get_text :: "node \<Rightarrow> string" where
  "get_text n = concat (all_strings n)"

text \<open>\<^verbatim>\<open>item.get_text(" ", strip=True)\<close>\<close>

definition get_text_sep :: "node \<Rightarrow> string" where
  "get_text_sep n = join '' '' (all_strings n)"

text \<open>The positions of all tags below a node, in document order.\<close>

fun descendants :: "node \<Rightarrow> path list"
  and descendants_from :: "nat \<Rightarrow> node list \<Rightarrow> path list" where
  "descendants (Tag name cls ch) = descendants_from 0 ch"
| "descendants (NavigableString s) = []"
| "descendants Decomposed = []"
| "descendants_from i [] = []"
| "descendants_from i (c # cs) =
     (case c of Tag name cls ch \<Rightarrow> [i] # map ((#) i) (descendants c) | _ \<Rightarrow> [])
     @ descendants_from (Suc i) cs"

text \<open>
  The element a position refers to. A position inside a decomposed element refers
  to an element that was destroyed with it, which is again without name, text and
  children.
\<close>

definition element :: "node \<Rightarrow> path \<Rightarrow> node" where
  "element root p = (case lookup root p of Some n \<Rightarrow> n | None \<Rightarrow> Decomposed)"

fun tag_name :: "node \<Rightarrow> string" where
  "tag_name (Tag name cls ch) = name"
| "tag_name (NavigableString s) = []"
| "tag_name Decomposed = []"

fun tag_class :: "node \<Rightarrow> string list" where
  "tag_class (Tag name cls ch) = cls"
| "tag_class (NavigableString s) = []"
| "tag_class Decomposed = []"

fun contents :: "node \<Rightarrow> node list" where
  "contents (Tag name cls ch) = ch"
| "contents (NavigableString s) = []"
| "contents Decomposed = []"

definition el_name :: "node \<Rightarrow> path \<Rightarrow> string" where
  "el_name root p = tag_name (element root p)"

definition el_class :: "node \<Rightarrow> path \<Rightarrow> string list" where
  "el_class root p = tag_class (element root p)"

text \<open>\<^verbatim>\<open>el.get_text(strip=True)\<close> of the element at a position.\<close>

definition el_text :: "node \<Rightarrow> path \<Rightarrow> string" where
  "el_text root p = get_text (element root p)"

text \<open>\<^verbatim>\<open>content_div.find_all(names, recursive=True)\<close>, as positions.\<close>

definition find_all_paths :: "string list \<Rightarrow> node \<Rightarrow> path list" where
  "find_all_paths names root = filter (\<lambda>p. el_name root p \<in> set names) (descendants root)"

text \<open>\<^verbatim>\<open>element.find_all(names, recursive=True)\<close>, as nodes.\<close>

fun find_all :: "string list \<Rightarrow> node \<Rightarrow> node list" where
  "find_all names (Tag name cls ch) =
     concat (map (\<lambda>c. (case c of Tag m cl gs \<Rightarrow> if m \<in> set names then [c] else [] | _ \<Rightarrow> [])
                       @ find_all names c) ch)"
| "find_all names (NavigableString s) = []"
| "find_all names Decomposed = []"

text \<open>\<^verbatim>\<open>element.find_all()\<close>: every tag below the element.\<close>

fun find_all_tags :: "node \<Rightarrow> node list" where
  "find_all_tags (Tag name cls ch) =
     concat (map (\<lambda>c. (case c of Tag m cl gs \<Rightarrow> [c] | _ \<Rightarrow> []) @ find_all_tags c) ch)"
| "find_all_tags (NavigableString s) = []"
| "find_all_tags Decomposed = []"

text \<open>
  The names of the proper ancestors of the element at a position, from
  \<^verbatim>\<open>content_div\<close> downwards. \<^verbatim>\<open>find_parent\<close> also walks through the ancestors of
  \<^verbatim>\<open>content_div\<close> itself; their names are the parameter \<open>outer\<close> of the pass.
\<close>

fun parent_names :: "node \<Rightarrow> path \<Rightarrow> string list" where
  "parent_names (Tag name cls ch) (i # p) =
     name # (if i < length ch then parent_names (ch ! i) p else [])"
| "parent_names n p = []"

definition find_parent :: "string list \<Rightarrow> node \<Rightarrow> path \<Rightarrow> string list \<Rightarrow> bool" where
  "find_parent outer root p names \<longleftrightarrow> (\<exists>a \<in> set (outer @ parent_names root p). a \<in> set names)"

section \<open>The presentation\<close>

text \<open>
  What python-pptx holds for the deck. A slide has its layout (0 title slide,
  1 title and content), its title, the paragraphs of the text frame of its second
  placeholder, the tables among its shapes and its notes text. A paragraph is the
  plain one the library creates (left empty by \<^verbatim>\<open>text_frame.clear()\<close>, or filled by
  assigning the placeholder's text), a list item with its level, or a code
  paragraph.
\<close>

datatype para = Plain string | ListItem string nat | CodeBlock string

fun para_text :: "para \<Rightarrow> string" where
  "para_text (Plain s) = s"
| "para_text (ListItem s l) = s"
| "para_text (CodeBlock s) = s"

record table =
  grid :: "string list list"
  header_styled :: bool

record slide =
  layout :: nat
  title :: string
  paragraphs :: "para list"
  tables :: "table list"
  notes_text :: "string option"

text \<open>
  \<^verbatim>\<open>content_box\<close> holds one of two things in the source: \<^verbatim>\<open>_add_content_slide\<close>
  returns the text frame of the new slide, the second branch of \<^verbatim>\<open>_ensure_slide\<close>
  returns the placeholder of the current slide. The number is the index of the
  slide in the deck. A \<^verbatim>\<open>TextFrame\<close> has no attribute \<^verbatim>\<open>text_frame\<close>.
\<close>

datatype box = TextFrame nat | Placeholder nat

datatype py_error = TypeError | AttributeError | ValueError | IOError

record config =
  max_slide_content_length :: int
  max_filename_length :: int

definition default_config :: config where
  "default_config = \<lparr>max_slide_content_length = 1000, max_filename_length = 100\<rparr>"

text \<open>The fields of \<^verbatim>\<open>PowerPointGenerator\<close> that the conversion reads and writes.\<close>

record generator =
  speaker_notes_txt :: "(nat \<times> string) list"
  notes_seen :: "(nat \<times> string) set"
  slide_count :: nat

text \<open>\<^verbatim>\<open>PowerPointGenerator.__init__\<close>\<close>

definition init_generator :: generator where
  "init_generator = \<lparr>speaker_notes_txt = [], notes_seen = {}, slide_count = 0\<rparr>"

text \<open>The generator, the deck and the local variables of \<^verbatim>\<open>_process_content_elements\<close>.\<close>

record pass =
  gen :: generator
  prs :: "slide list"
  current_slide :: "nat option"
  content_box :: "box option"
  code_buffer :: "string list"
  processed_elements :: "path set"

definition add_paragraph :: "slide list \<Rightarrow> nat \<Rightarrow> para \<Rightarrow> slide list" where
  "add_paragraph deck i para = deck[i := (deck ! i)\<lparr>paragraphs := paragraphs (deck ! i) @ [para]\<rparr>]"

text \<open>
  \<^verbatim>\<open>_add_content_slide\<close>, together with the assignment of its result to
  \<^verbatim>\<open>current_slide, content_box\<close> that every caller makes.
\<close>

definition add_content_slide :: "pass \<Rightarrow> string \<Rightarrow> pass" where
  "add_content_slide st ttl =
     (let clean_title = sub_slide_prefix ttl;
          new = \<lparr>layout = 1,
                 title = (if length clean_title > 100 then take 100 clean_title @ ''...''
                          else clean_title),
                 paragraphs = [Plain []], tables = [], notes_text = None\<rparr>
      in st\<lparr>gen := (gen st)\<lparr>slide_count := slide_count (gen st) + 1\<rparr>,
            prs := prs st @ [new],
            current_slide := Some (length (prs st)),
            content_box := Some (TextFrame (length (prs st)))\<rparr>)"

text \<open>\<^verbatim>\<open>_ensure_slide\<close>: the slide, the content box, and the state with both assigned.\<close>

definition ensure_slide :: "pass \<Rightarrow> string \<Rightarrow> nat \<times> box \<times> pass" where
  "ensure_slide st default_title =
     (case current_slide st of
        None \<Rightarrow> (length (prs st), TextFrame (length (prs st)), add_content_slide st default_title)
      | Some i \<Rightarrow> (i, Placeholder i, st\<lparr>content_box := Some (Placeholder i)\<rparr>))"

subsection \<open>Code paragraphs\<close>

text \<open>
  \<^verbatim>\<open>_add_code_content\<close> is called with a string (the joined code buffer) and with
  an element (a \<^verbatim>\<open>pre\<close> or \<^verbatim>\<open>code\<close> tag). On a BeautifulSoup tag, an attribute that
  the class does not define is a search for a child of that name: \<^verbatim>\<open>code_text.strip\<close>
  is \<^verbatim>\<open>code_text.find("strip")\<close>, in general \<^verbatim>\<open>None\<close>, and calling it raises
  \<^verbatim>\<open>TypeError\<close>. Where the element does contain a tag named \<^verbatim>\<open>strip\<close>, calling
  that tag lists the tags below it; an empty list makes the function return, any
  other lets it add a paragraph and then fail on \<^verbatim>\<open>code_text[:n]\<close>, which a tag
  reads as an attribute lookup.
\<close>

datatype pyval = PyStr string | PyTag node

definition add_code_content ::
  "config \<Rightarrow> slide list \<Rightarrow> box \<Rightarrow> pyval \<Rightarrow> py_error option \<times> slide list" where
  "add_code_content cfg deck cbox code_text =
     (case code_text of
        PyStr s \<Rightarrow>
          if strip s = [] then (None, deck)
          else (case cbox of
                  TextFrame i \<Rightarrow> (Some AttributeError, deck)
                | Placeholder i \<Rightarrow>
                    (None, add_paragraph deck i
                             (CodeBlock (slice_to s (max_slide_content_length cfg)))))
      | PyTag t \<Rightarrow>
          (case find_all [''strip''] t of
             [] \<Rightarrow> (Some TypeError, deck)
           | t' # ts \<Rightarrow>
               if find_all_tags t' = [] then (None, deck)
               else (case cbox of
                       TextFrame i \<Rightarrow> (Some AttributeError, deck)
                     | Placeholder i \<Rightarrow> (Some TypeError, add_paragraph deck i (Plain [])))))"

subsection \<open>Lists\<close>

definition single_blank :: "para list \<Rightarrow> bool" where
  "single_blank ps \<longleftrightarrow> (case ps of [p] \<Rightarrow> strip (para_text p) = [] | _ \<Rightarrow> False)"

text \<open>The text of a list item: its children other than nested lists, joined by spaces.\<close>

fun text_parts :: "node list \<Rightarrow> string list" where
  "text_parts [] = []"
| "text_parts (NavigableString s # items) = strip s # text_parts items"
| "text_parts (Tag name cls ch # items) =
     (if name \<in> set [''ul'', ''ol''] then text_parts items
      else get_text_sep (Tag name cls ch) # text_parts items)"
| "text_parts (Decomposed # items) = text_parts items"

definition li_text :: "node list \<Rightarrow> string" where
  "li_text items = strip (join '' '' (text_parts items))"

definition add_list_item :: "para list \<Rightarrow> string \<Rightarrow> nat \<Rightarrow> para list" where
  "add_list_item ps text level =
     (if text = [] then ps
      else if single_blank ps then [ListItem text (min level 4)]
      else ps @ [ListItem text (min level 4)])"

text \<open>
  \<^verbatim>\<open>_process_list_recursive\<close> on the paragraphs of the text frame: the loop over
  the \<^verbatim>\<open>li\<close> children of the list, and for each the loop over its nested lists.
\<close>

fun process_list_recursive :: "para list \<Rightarrow> node \<Rightarrow> nat \<Rightarrow> para list"
  and list_items :: "para list \<Rightarrow> node list \<Rightarrow> nat \<Rightarrow> para list"
  and nested_lists :: "para list \<Rightarrow> node list \<Rightarrow> nat \<Rightarrow> para list" where
  "process_list_recursive ps (Tag name cls ch) level =
     list_items (if single_blank ps then [] else ps) ch level"
| "process_list_recursive ps (NavigableString s) level = ps"
| "process_list_recursive ps Decomposed level = ps"
| "list_items ps [] level = ps"
| "list_items ps (Tag name cls ch # rest) level =
     (if name = ''li''
      then list_items (nested_lists (add_list_item ps (li_text ch) level) ch level) rest level
      else list_items ps rest level)"
| "list_items ps (NavigableString s # rest) level = list_items ps rest level"
| "list_items ps (Decomposed # rest) level = list_items ps rest level"
| "nested_lists ps [] level = ps"
| "nested_lists ps (Tag name cls ch # rest) level =
     (if name \<in> set [''ul'', ''ol'']
      then nested_lists (process_list_recursive ps (Tag name cls ch) (Suc level)) rest level
      else nested_lists ps rest level)"
| "nested_lists ps (NavigableString s # rest) level = nested_lists ps rest level"
| "nested_lists ps (Decomposed # rest) level = nested_lists ps rest level"

text \<open>\<^verbatim>\<open>_add_list_content\<close>; it reads \<^verbatim>\<open>content_box.text_frame\<close> first.\<close>

definition add_list_content :: "slide list \<Rightarrow> box \<Rightarrow> node \<Rightarrow> py_error option \<times> slide list" where
  "add_list_content deck cbox list_element =
     (case cbox of
        TextFrame i \<Rightarrow> (Some AttributeError, deck)
      | Placeholder i \<Rightarrow>
          (None, deck[i := (deck ! i)\<lparr>paragraphs :=
                   process_list_recursive (paragraphs (deck ! i)) list_element 0\<rparr>]))"

subsection \<open>Tables\<close>

definition cells :: "node \<Rightarrow> node list" where
  "cells row = find_all [''td'', ''th''] row"

text \<open>\<^verbatim>\<open>max\<close> of a non-empty sequence of lengths.\<close>

definition maximum :: "nat list \<Rightarrow> nat" where
  "maximum ns = foldr max ns 0"

definition cell_text :: "node \<Rightarrow> nat \<Rightarrow> string" where
  "cell_text row j = (if j < length (cells row) then take 200 (get_text (cells row ! j)) else [])"

text \<open>
  \<^verbatim>\<open>_add_table_to_slide\<close>. \<^verbatim>\<open>max\<close> raises \<^verbatim>\<open>ValueError\<close> when no row has a cell;
  the function catches it and adds nothing.
\<close>

definition add_table_to_slide :: "slide list \<Rightarrow> nat \<Rightarrow> node \<Rightarrow> slide list" where
  "add_table_to_slide deck i table_element =
     (let rows = find_all [''tr''] table_element in
      if rows = [] then deck
      else if filter (\<lambda>row. cells row \<noteq> []) rows = [] then deck
      else
        (let max_cols = maximum (map (\<lambda>row. length (cells row))
                                     (filter (\<lambda>row. cells row \<noteq> []) rows));
             num_rows = length rows
         in if max_cols = 0 \<or> num_rows = 0 then deck
            else deck[i := (deck ! i)\<lparr>tables := tables (deck ! i) @
                   [\<lparr>grid = map (\<lambda>row. map (cell_text row) [0..<max_cols]) rows,
                     header_styled = (\<exists>c \<in> set (cells (hd rows)). tag_name c = ''th'')\<rparr>]\<rparr>]))"

section \<open>The conversion\<close>

subsection \<open>Title extraction\<close>

text \<open>
  The second loop at the head of \<^verbatim>\<open>create_enhanced_presentation\<close>, over the
  \<^verbatim>\<open>h1\<close>, \<^verbatim>\<open>h2\<close> and \<^verbatim>\<open>p\<close> elements found before it starts. (The first loop only
  reads and breaks; it has no effect.) The tree changes as the loop decomposes
  elements, so it is part of the loop's state. Python's \<^verbatim>\<open>not heading\<close> holds of
  \<^verbatim>\<open>None\<close> and of the empty string.
\<close>

record title_scan =
  tree :: node
  heading :: "string option"
  subheading :: "string option"
  speaker_notes :: "string option"

definition truthy :: "string option \<Rightarrow> bool" where
  "truthy v \<longleftrightarrow> (case v of None \<Rightarrow> False | Some s \<Rightarrow> s \<noteq> [])"

text \<open>\<^verbatim>\<open>v or d\<close>\<close>

definition or_else :: "string option \<Rightarrow> string \<Rightarrow> string" where
  "or_else v d = (case v of None \<Rightarrow> d | Some s \<Rightarrow> if s = [] then d else s)"

fun extract_title :: "title_scan \<Rightarrow> path list \<Rightarrow> title_scan" where
  "extract_title ts [] = ts"
| "extract_title ts (el # els) =
     (let text = sub_slide_prefix (el_text (tree ts) el) in
      case split_marker text of
        Some (before, notes) \<Rightarrow>
          extract_title (ts\<lparr>tree := decompose (tree ts) el, speaker_notes := Some (strip notes)\<rparr>) els
      | None \<Rightarrow>
          (let ts1 = (if \<not> truthy (heading ts)
                      then ts\<lparr>tree := decompose (tree ts) el, heading := Some text\<rparr>
                      else if \<not> truthy (subheading ts)
                      then ts\<lparr>tree := decompose (tree ts) el, subheading := Some text\<rparr>
                      else ts)
           in if truthy (heading ts1) \<and> truthy (subheading ts1) \<and> truthy (speaker_notes ts1)
              then ts1 else extract_title ts1 els))"

text \<open>\<^verbatim>\<open>add_custom_title_slide\<close>\<close>

definition add_custom_title_slide ::
  "generator \<Rightarrow> slide list \<Rightarrow> string \<Rightarrow> string \<Rightarrow> string \<Rightarrow> generator \<times> slide list" where
  "add_custom_title_slide g deck heading0 subheading0 notes0 =
     (let clean_subheading = strip (sub_subtitle_prefix subheading0);
          slide_index = length deck;
          new = \<lparr>layout = 0, title = heading0, paragraphs = [Plain clean_subheading],
                 tables = [],
                 notes_text = (if notes0 \<noteq> [] then Some (strip notes0) else None)\<rparr>;
          notes_key = (slide_index + 1, strip notes0);
          g1 = (if notes0 \<noteq> [] \<and> notes_key \<notin> notes_seen g \<and> strip notes0 \<noteq> []
                then g\<lparr>speaker_notes_txt := speaker_notes_txt g @ [notes_key],
                       notes_seen := insert notes_key (notes_seen g)\<rparr>
                else g)
      in (g1\<lparr>slide_count := slide_count g1 + 1\<rparr>, deck @ [new]))"

subsection \<open>The main pass\<close>

definition mark :: "path \<Rightarrow> pass \<Rightarrow> pass" where
  "mark el st = st\<lparr>processed_elements := insert el (processed_elements st)\<rparr>"

text \<open>Lines 324 to 331: the note goes to the current slide, if there is one.\<close>

definition attach_notes :: "pass \<Rightarrow> string \<Rightarrow> pass" where
  "attach_notes st notes_part =
     (case current_slide st of
        None \<Rightarrow> st
      | Some i \<Rightarrow>
          (let notes_key = (slide_count (gen st), strip notes_part) in
           if strip notes_part \<noteq> [] \<and> notes_key \<notin> notes_seen (gen st)
           then st\<lparr>gen := (gen st)\<lparr>speaker_notes_txt := speaker_notes_txt (gen st) @ [notes_key],
                                     notes_seen := insert notes_key (notes_seen (gen st))\<rparr>,
                   prs := (prs st)[i := (prs st ! i)\<lparr>notes_text := Some (strip notes_part)\<rparr>]\<rparr>
           else st))"

text \<open>
  Lines 347 to 350. The call of \<^verbatim>\<open>_add_code_content\<close> stands outside the
  \<^verbatim>\<open>try\<close> of the loop: what it raises leaves the pass.
\<close>

definition flush_code_buffer :: "config \<Rightarrow> pass \<Rightarrow> py_error option \<times> pass" where
  "flush_code_buffer cfg st =
     (if code_buffer st = [] then (None, st)
      else (case ensure_slide st ''Content'' of
              (i, cbox, st1) \<Rightarrow>
                (case add_code_content cfg (prs st1) cbox
                        (PyStr (join [CHR 0x0A] (code_buffer st1))) of
                   (Some e, deck) \<Rightarrow> (Some e, st1\<lparr>prs := deck\<rparr>)
                 | (None, deck) \<Rightarrow> (None, st1\<lparr>prs := deck, code_buffer := []\<rparr>))))"

text \<open>
  Lines 408 to 411, under the comment "Handle any remaining code buffer". They
  stand inside the loop body, after the \<^verbatim>\<open>try\<close>, and do not empty the buffer.
\<close>

definition remaining_code_buffer :: "config \<Rightarrow> pass \<Rightarrow> py_error option \<times> pass" where
  "remaining_code_buffer cfg st =
     (if code_buffer st = [] then (None, st)
      else (case ensure_slide st ''Content'' of
              (i, cbox, st1) \<Rightarrow>
                (case add_code_content cfg (prs st1) cbox
                        (PyStr (join [CHR 0x0A] (code_buffer st1))) of
                   (e, deck) \<Rightarrow> (e, st1\<lparr>prs := deck\<rparr>))))"

definition headings :: "string list" where
  "headings = [''h1'', ''h2'', ''h3'', ''h4'', ''h5'', ''h6'']"

text \<open>
  Lines 352 to 411: the elements left out because a container holds them, then
  the dispatch on the tag name inside \<^verbatim>\<open>try\<close>, whose handler marks the element
  and goes on with the next one.
\<close>

definition handle_element ::
  "config \<Rightarrow> string list \<Rightarrow> node \<Rightarrow> pass \<Rightarrow> path \<Rightarrow> py_error option \<times> pass" where
  "handle_element cfg outer root st el =
     (let name = el_name root el in
      if name \<in> set [''p'', ''span''] \<and> find_parent outer root el [''ul'', ''ol'', ''li'']
      then (None, mark el st)
      else if name = ''p'' \<and> find_parent outer root el [''li'']
      then (None, mark el st)
      else if name = ''span'' \<and> (find_parent outer root el [''p''] \<or> find_parent outer root el [''li''])
      then (None, mark el st)
      else if name = ''code'' \<and> find_parent outer root el [''pre'']
      then (None, mark el st)
      else if name \<in> set headings
      then remaining_code_buffer cfg (mark el (add_content_slide st (el_text root el)))
      else if name \<in> set [''ol'', ''ul''] \<and> \<not> find_parent outer root el [''ul'', ''ol'']
      then (case ensure_slide st ''List'' of
              (i, cbox, st1) \<Rightarrow>
                (case add_list_content (prs st1) cbox (element root el) of
                   (e, deck) \<Rightarrow> (None, mark el (st1\<lparr>prs := deck\<rparr>))))
      else if name = ''table''
      then (case ensure_slide st ''Content'' of
              (i, cbox, st1) \<Rightarrow>
                (None, mark el (st1\<lparr>prs := add_table_to_slide (prs st1) i (element root el)\<rparr>)))
      else if name \<in> set [''pre'', ''code'']
      then (case ensure_slide st ''Code'' of
              (i, cbox, st1) \<Rightarrow>
                (case add_code_content cfg (prs st1) cbox (PyTag (element root el)) of
                   (None, deck) \<Rightarrow> (None, st1\<lparr>prs := deck\<rparr>)
                 | (Some e, deck) \<Rightarrow> (None, mark el (st1\<lparr>prs := deck\<rparr>))))
      else remaining_code_buffer cfg (mark el st))"

text \<open>One turn of the loop of \<^verbatim>\<open>_process_content_elements\<close>.\<close>

definition process_element ::
  "config \<Rightarrow> string list \<Rightarrow> node \<Rightarrow> pass \<Rightarrow> path \<Rightarrow> py_error option \<times> pass" where
  "process_element cfg outer root st el =
     (if el \<in> processed_elements st then (None, st)
      else (case split_marker (el_text root el) of
              Some (content_part, notes_part) \<Rightarrow> (None, mark el (attach_notes st notes_part))
            | None \<Rightarrow>
                if el_name root el = ''div'' \<and> ''cm-line'' \<in> set (el_class root el)
                then (None, mark el (st\<lparr>code_buffer := code_buffer st @
                        (if el_text root el = [] then [] else [el_text root el])\<rparr>))
                else (case flush_code_buffer cfg st of
                        (Some e, st1) \<Rightarrow> (Some e, st1)
                      | (None, st1) \<Rightarrow> handle_element cfg outer root st1 el)))"

fun process_elements ::
  "config \<Rightarrow> string list \<Rightarrow> node \<Rightarrow> pass \<Rightarrow> path list \<Rightarrow> py_error option \<times> pass" where
  "process_elements cfg outer root st [] = (None, st)"
| "process_elements cfg outer root st (el # els) =
     (case process_element cfg outer root st el of
        (Some e, st1) \<Rightarrow> (Some e, st1)
      | (None, st1) \<Rightarrow> process_elements cfg outer root st1 els)"

definition interesting :: "string list" where
  "interesting = [''h1'', ''h2'', ''h3'', ''h4'', ''h5'', ''h6'', ''p'', ''ul'', ''ol'', ''table'',
                  ''pre'', ''code'', ''blockquote'', ''img'', ''span'', ''div'']"

definition start_pass :: "generator \<Rightarrow> slide list \<Rightarrow> pass" where
  "start_pass g deck = \<lparr>gen = g, prs = deck, current_slide = None, content_box = None,
                         code_buffer = [], processed_elements = {}\<rparr>"

text \<open>\<^verbatim>\<open>_process_content_elements\<close>\<close>

definition process_content_elements ::
  "config \<Rightarrow> string list \<Rightarrow> generator \<Rightarrow> slide list \<Rightarrow> node \<Rightarrow> py_error option \<times> pass" where
  "process_content_elements cfg outer g deck content_div =
     process_elements cfg outer content_div (start_pass g deck)
       (find_all_paths interesting content_div)"

subsection \<open>The notes file\<close>

text \<open>The first loop of \<^verbatim>\<open>_save_speaker_notes_textfile\<close>.\<close>

fun clean_notes ::
  "(nat \<times> string) list \<Rightarrow> (nat \<times> string) set \<Rightarrow> (nat \<times> string) list \<Rightarrow> (nat \<times> string) list" where
  "clean_notes cleaned_notes seen [] = cleaned_notes"
| "clean_notes cleaned_notes seen ((slide_num, note) # rest) =
     (if strip note \<noteq> [] \<and> (slide_num, strip note) \<notin> seen
      then clean_notes (cleaned_notes @ [(slide_num, strip note)])
             (insert (slide_num, strip note) seen) rest
      else clean_notes cleaned_notes seen rest)"

text \<open>What the second loop writes for one entry.\<close>

definition note_block :: "nat \<times> string \<Rightarrow> string" where
  "note_block e = ''Slide '' @ str_nat (fst e) @ '':'' @ [CHR 0x0A] @ strip (snd e)
                  @ [CHR 0x0A, CHR 0x0A]"

text \<open>The contents of the file \<^verbatim>\<open>_save_speaker_notes_textfile\<close> writes.\<close>

definition save_speaker_notes_textfile :: "(nat \<times> string) list \<Rightarrow> string" where
  "save_speaker_notes_textfile speaker_notes_list =
     concat (map note_block (clean_notes [] {} speaker_notes_list))"

subsection \<open>The whole conversion\<close>

definition add_fallback_slide ::
  "generator \<Rightarrow> slide list \<Rightarrow> string \<Rightarrow> string \<Rightarrow> generator \<times> slide list" where
  "add_fallback_slide g deck ttl content =
     (g\<lparr>slide_count := slide_count g + 1\<rparr>,
      deck @ [\<lparr>layout = 1, title = ttl, paragraphs = [Plain content], tables = [],
               notes_text = None\<rparr>])"

text \<open>
  What a call of \<^verbatim>\<open>create_enhanced_presentation\<close> leaves: the value it returns,
  the generator, the deck it built, the deck it saved, and the notes file.
\<close>

record outcome =
  returned :: bool
  generator_after :: generator
  presentation :: "slide list"
  saved :: "slide list option"
  notes_file :: "string option"

text \<open>
  \<^verbatim>\<open>create_enhanced_presentation\<close>. \<open>disk_ok\<close> tells whether \<^verbatim>\<open>_save_presentation\<close>
  gets the file written; when it does not, it raises and the conversion returns
  \<^verbatim>\<open>False\<close>, as it does when the main pass raises.
\<close>

definition create_enhanced_presentation ::
  "config \<Rightarrow> string list \<Rightarrow> bool \<Rightarrow> generator \<Rightarrow> node \<Rightarrow> outcome" where
  "create_enhanced_presentation cfg outer disk_ok g content_div =
     (let ts = extract_title \<lparr>tree = content_div, heading = None, subheading = None,
                               speaker_notes = None\<rparr>
                 (find_all_paths [''h1'', ''h2'', ''p''] content_div)
      in case add_custom_title_slide g [] (or_else (heading ts) '' '')
                (or_else (subheading ts) '' '') (or_else (speaker_notes ts) []) of
           (g1, deck1) \<Rightarrow>
             (case process_content_elements cfg outer g1 deck1 (tree ts) of
                (Some e, st) \<Rightarrow>
                  \<lparr>returned = False, generator_after = gen st, presentation = prs st,
                   saved = None, notes_file = None\<rparr>
              | (None, st) \<Rightarrow>
                  (case (if length (prs st) = 0
                         then add_fallback_slide (gen st) (prs st) ''No Content Found''
                                ''The canvas appears to be empty or could not be processed.''
                         else (gen st, prs st)) of
                     (g2, deck2) \<Rightarrow>
                       if \<not> disk_ok
                       then \<lparr>returned = False, generator_after = g2, presentation = deck2,
                             saved = None, notes_file = None\<rparr>
                       else \<lparr>returned = True, generator_after = g2, presentation = deck2,
                             saved = Some deck2,
                             notes_file = (if speaker_notes_txt g2 \<noteq> []
                                           then Some (save_speaker_notes_textfile (speaker_notes_txt g2))
                                           else None)\<rparr>)))"

section \<open>File names\<close>

text \<open>
  \<^verbatim>\<open>SafeFilename.sanitize\<close> depends on code points beyond 255, so here a string is a
  list of code points. \<open>uspace\<close> is \<^verbatim>\<open>\s\<close> on all of Unicode. The decomposition
  table behind \<^verbatim>\<open>unicodedata.normalize('NFKD', _)\<close> is a parameter.
\<close>

definition uspace :: "nat \<Rightarrow> bool" where
  "uspace c \<longleftrightarrow> (9 \<le> c \<and> c \<le> 13) \<or> (28 \<le> c \<and> c \<le> 32) \<or> c = 0x85 \<or> c = 0xA0 \<or> c = 0x1680
       \<or> (0x2000 \<le> c \<and> c \<le> 0x200A) \<or> c = 0x2028 \<or> c = 0x2029 \<or> c = 0x202F \<or> c = 0x205F
       \<or> c = 0x3000"

text \<open>The class \<^verbatim>\<open>[<>:"/\\|?*]\<close>.\<close>

definition dangerous :: "nat list" where
  "dangerous = [0x3C, 0x3E, 0x3A, 0x22, 0x2F, 0x5C, 0x7C, 0x3F, 0x2A]"

text \<open>\<^verbatim>\<open>re.sub(r'\s+', '_', filename)\<close>\<close>

function sub_spaces :: "nat list \<Rightarrow> nat list" where
  "sub_spaces [] = []"
| "sub_spaces (c # cs) =
     (if uspace c then 0x5F # sub_spaces (dropWhile uspace cs) else c # sub_spaces cs)"
  by pat_completeness auto
termination
  by (relation "measure length") (auto simp: le_imp_less_Suc length_dropWhile_le)

definition canvas_export :: "nat list" where
  "canvas_export = map of_char ''canvas_export''"

definition sanitize :: "(nat list \<Rightarrow> nat list) \<Rightarrow> nat list \<Rightarrow> int \<Rightarrow> nat list" where
  "sanitize nfkd filename max_length =
     (let f1 = map (\<lambda>c. if c \<in> set dangerous then 0x5F else c) filename;
          f2 = sub_spaces f1;
          f3 = nfkd f2;
          f4 = filter (\<lambda>c. c < 128) f3;
          f5 = (if int (length f4) > max_length - 5 then slice_to f4 (max_length - 5) else f4)
      in if f5 = [] then canvas_export else f5)"

section \<open>Example documents\<close>

definition text_tag :: "string \<Rightarrow> string \<Rightarrow> node" where
  "text_tag name s = Tag name [] [NavigableString s]"

text \<open>\<^verbatim>\<open><div class="cm-line">s</div>\<close>\<close>

definition code_line :: "string \<Rightarrow> node" where
  "code_line s = Tag ''div'' [''cm-line''] [NavigableString s]"

definition table_row :: "string list \<Rightarrow> node" where
  "table_row cs = Tag ''tr'' [] (map (text_tag ''td'') cs)"

text \<open>The title slide of a document without \<^verbatim>\<open>h1\<close>, \<^verbatim>\<open>h2\<close> and \<^verbatim>\<open>p\<close>.\<close>

definition blank_title_slide :: slide where
  "blank_title_slide = \<lparr>layout = 0, title = '' '', paragraphs = [Plain []], tables = [],
                         notes_text = None\<rparr>"

definition content_slide :: "string \<Rightarrow> para list \<Rightarrow> slide" where
  "content_slide ttl ps = \<lparr>layout = 1, title = ttl, paragraphs = ps, tables = [],
                           notes_text = None\<rparr>"

text \<open>The state in which the main pass starts below a blank title slide.\<close>

definition after_title :: pass where
  "after_title = start_pass (init_generator\<lparr>slide_count := 1\<rparr>) [blank_title_slide]"

text \<open>
  The document of claim C2: a heading "Intro" of the given level, a paragraph
  with a speaker note, and a table of two rows and two columns.
\<close>

definition intro_document :: "string \<Rightarrow> node" where
  "intro_document h = Tag ''div'' []
     [text_tag h ''Intro'', text_tag ''p'' ''Hello Speaker Notes: remember the demo'',
      Tag ''table'' [] [table_row [''a'', ''b''], table_row [''c'', ''d'']]]"

text \<open>A table whose rows have 3, 1, 0 and 2 cells.\<close>

definition ragged_table :: node where
  "ragged_table = Tag ''table'' []
     [table_row [''a'', ''b'', ''c''], table_row [''d''], table_row [], table_row [''e'', ''f'']]"

text \<open>A heading followed by two notes for its slide.\<close>

definition two_notes_document :: node where
  "two_notes_document = Tag ''div'' []
     [text_tag ''h3'' ''Body'', text_tag ''span'' ''Speaker notes: first'',
      text_tag ''span'' ''Speaker notes: second'']"

text \<open>
  The notes list as the notes file reads it: every text trimmed, the entries with
  an empty text left out; and of a list the first occurrence of each element.
\<close>

definition entries :: "(nat \<times> string) list \<Rightarrow> (nat \<times> string) list" where
  "entries ns = filter (\<lambda>e. snd e \<noteq> []) (map (\<lambda>e. (fst e, strip (snd e))) ns)"

definition first_occurrences :: "'a list \<Rightarrow> 'a list" where
  "first_occurrences xs = rev (remdups (rev xs))"

text \<open>
  Two rows of the Unicode compatibility decomposition that NFKD applies: the
  fullwidth colon U+FF1A becomes the colon U+003A, the diaeresis U+00A8 becomes a
  space followed by the combining diaeresis U+0308. Every other code point is left
  as it is here.
\<close>

definition nfkd_excerpt :: "nat list \<Rightarrow> nat list" where
  "nfkd_excerpt s = concat (map (\<lambda>c. if c = 0xFF1A then [0x3A]
                                       else if c = 0xA8 then [0x20, 0x308] else [c]) s)"

text \<open>A heading followed by the same note for its slide, twice.\<close>

definition same_note_twice :: node where
  "same_note_twice = Tag ''div'' []
     [text_tag ''h3'' ''Body'', text_tag ''span'' ''Speaker notes: same'',
      text_tag ''span'' ''Speaker notes: same'']"




section \<open>The notes list and the set of keys\<close>

text \<open>
  The generator keeps the notes in a list and their keys in a set. What the
  conversion maintains: the list holds no key twice, and every key in the list
  is in the set. Most steps leave both as they are.
\<close>

definition dedup_inv :: "generator \<Rightarrow> bool" where
  "dedup_inv g \<longleftrightarrow> distinct (speaker_notes_txt g) \<and> set (speaker_notes_txt g) \<subseteq> notes_seen g"

definition same_notes :: "generator \<Rightarrow> generator \<Rightarrow> bool" where
  "same_notes g g' \<longleftrightarrow> speaker_notes_txt g' = speaker_notes_txt g \<and> notes_seen g' = notes_seen g"

section \<open>Facts about strings\<close>


lemma strip_prefix_decomp:
  "dropWhile isspace s = strip s @ rev (takeWhile isspace (rev (dropWhile isspace s)))"
proof -
  have "strip s @ rev (takeWhile isspace (rev (dropWhile isspace s)))
        = rev (takeWhile isspace (rev (dropWhile isspace s)) @ dropWhile isspace (rev (dropWhile isspace s)))"
    unfolding strip_def by (simp only: rev_append)
  also have "\<dots> = rev (rev (dropWhile isspace s))" by (simp only: takeWhile_dropWhile_id)
  finally show ?thesis by simp
qed

lemma strip_hd: "strip s \<noteq> [] \<Longrightarrow> \<not> isspace (hd (strip s))"
proof -
  assume ne: "strip s \<noteq> []"
  have d: "dropWhile isspace s = strip s @ rev (takeWhile isspace (rev (dropWhile isspace s)))"
    by (rule strip_prefix_decomp)
  have "dropWhile isspace s \<noteq> []"
  proof
    assume "dropWhile isspace s = []"
    with d have "strip s = []" by simp
    with ne show False by simp
  qed
  then have "\<not> isspace (hd (dropWhile isspace s))" by (rule hd_dropWhile)
  moreover have "hd (dropWhile isspace s) = hd (strip s)" using d ne by (metis hd_append2)
  ultimately show ?thesis by simp
qed

lemma dropWhile_strip: "dropWhile isspace (strip s) = strip s"
  using strip_hd [of s] by (cases "strip s") auto

lemma strip_strip: "strip (strip s) = strip s"
proof -
  have "strip (strip s) = rev (dropWhile isspace (rev (strip s)))"
    by (simp add: strip_def [of "strip s"] dropWhile_strip)
  also have "rev (strip s) = dropWhile isspace (rev (dropWhile isspace s))"
    by (simp add: strip_def)
  also have "rev (dropWhile isspace (dropWhile isspace (rev (dropWhile isspace s)))) = strip s"
    by (simp add: strip_def)
  finally show ?thesis .
qed

section \<open>Speaker notes met before any slide is open\<close>

text \<open>
  Claim C10. In the main pass, when the text of an element matches the speaker
  notes marker and no slide is open, the note is dropped: the turn of the loop
  changes nothing but the set of processed elements, which gains the element.
  The generator (notes list, dedup set, slide count), the deck, the current
  slide and the code buffer stay as they were.
\<close>

theorem note_without_open_slide_discarded:
  assumes "el \<notin> processed_elements st"
    and "split_marker (el_text root el) = Some (content_part, notes_part)"
    and "current_slide st = None"
  shows "process_element cfg outer root st el
         = (None, st\<lparr>processed_elements := insert el (processed_elements st)\<rparr>)"
  using assms by (simp add: process_element_def attach_notes_def mark_def)

text \<open>The theorem at a paragraph that comes first in the document.\<close>

theorem note_without_open_slide_discarded_witness:
  "[0] \<notin> processed_elements after_title
   \<and> split_marker (el_text (Tag ''div'' [] [text_tag ''p'' ''Speaker notes: remember'']) [0])
       = Some ([], ''remember'')
   \<and> current_slide after_title = None
   \<and> process_element default_config [] (Tag ''div'' [] [text_tag ''p'' ''Speaker notes: remember''])
        after_title [0]
       = (None, after_title\<lparr>processed_elements := insert [0] (processed_elements after_title)\<rparr>)"
proof -
  have a: "[0] \<notin> processed_elements after_title"
    by (simp add: after_title_def start_pass_def)
  have b: "split_marker (el_text (Tag ''div'' [] [text_tag ''p'' ''Speaker notes: remember'']) [0])
           = Some ([], ''remember'')"
    by code_simp
  have c: "current_slide after_title = None"
    by (simp add: after_title_def start_pass_def)
  show ?thesis
    using note_without_open_slide_discarded [OF a b c] a b c by simp
qed

section \<open>Code lines at the end of the document\<close>

text \<open>
  Claim C4 says that code lines which end the document are flushed after the
  pass. The flush under the comment "Handle any remaining code buffer" stands
  inside the loop body, where the buffer is always empty; nothing follows the
  loop. For a heading followed by one code line the pass ends with the line still
  in the buffer, and the deck that is saved has no code paragraph.
\<close>

theorem trailing_code_buffer_lost:
  "process_content_elements default_config [] (init_generator\<lparr>slide_count := 1\<rparr>)
     [blank_title_slide] (Tag ''div'' [] [text_tag ''h3'' ''Setup'', code_line ''x = 1''])
   = (None, \<lparr>gen = init_generator\<lparr>slide_count := 2\<rparr>,
             prs = [blank_title_slide, content_slide ''Setup'' [Plain []]],
             current_slide = Some 1, content_box = Some (TextFrame 1),
             code_buffer = [''x = 1''], processed_elements = {[0], [1]}\<rparr>)
   \<and> saved (create_enhanced_presentation default_config [] True init_generator
              (Tag ''div'' [] [text_tag ''h3'' ''Setup'', code_line ''x = 1'']))
     = Some [blank_title_slide, content_slide ''Setup'' [Plain []]]"
  by code_simp

section \<open>Preformatted and code elements\<close>

text \<open>
  Claim C3 says that a \<^verbatim>\<open>pre\<close> or \<^verbatim>\<open>code\<close> element gets a slide and a code
  paragraph with its text. The slide is ensured, but \<^verbatim>\<open>_add_code_content\<close> is
  handed the element where it expects a string, fails on \<^verbatim>\<open>code_text.strip()\<close>, and
  the handler of the loop swallows the error. Below a heading the slide gains no
  paragraph; with no slide open a slide titled "Code" is created and stays empty.
\<close>

theorem pre_element_adds_no_code:
  "saved (create_enhanced_presentation default_config [] True init_generator
            (Tag ''div'' [] [text_tag ''h3'' ''Setup'', text_tag ''pre'' ''x = 1'']))
   = Some [blank_title_slide, content_slide ''Setup'' [Plain []]]
   \<and> saved (create_enhanced_presentation default_config [] True init_generator
              (Tag ''div'' [] [text_tag ''pre'' ''x = 1'']))
     = Some [blank_title_slide, content_slide ''Code'' [Plain []]]
   \<and> add_code_content default_config [blank_title_slide, content_slide ''Setup'' [Plain []]]
        (Placeholder 1) (PyTag (text_tag ''pre'' ''x = 1''))
     = (Some TypeError, [blank_title_slide, content_slide ''Setup'' [Plain []]])"
  by code_simp

section \<open>A document without interesting elements\<close>

lemma find_all_paths_mono:
  assumes "find_all_paths names root = []" and "set names' \<subseteq> set names"
  shows "find_all_paths names' root = []"
  using assms unfolding find_all_paths_def by (auto simp: filter_empty_conv)

lemma title_names_interesting: "set [''h1'', ''h2'', ''p''] \<subseteq> set interesting"
  by (simp add: interesting_def)

lemma blank_title: "add_custom_title_slide init_generator [] '' '' '' '' []
    = (init_generator\<lparr>slide_count := 1\<rparr>, [blank_title_slide])"
  by code_simp

lemma init_notes_empty: "speaker_notes_txt (init_generator\<lparr>slide_count := n\<rparr>) = []"
  by (simp add: init_generator_def)

text \<open>
  Claim C1, amended. When the document has no interesting element, the conversion
  builds the title slide alone, with the placeholder title of one space, and
  returns \<^verbatim>\<open>True\<close> whenever the file can be written. The fallback slide is added
  only to a deck without any slide, and the title slide is always there.
\<close>

theorem no_interesting_nodes_title_slide_only:
  assumes "find_all_paths interesting content_div = []"
  shows "create_enhanced_presentation cfg outer disk_ok init_generator content_div
         = \<lparr>returned = disk_ok, generator_after = init_generator\<lparr>slide_count := 1\<rparr>,
            presentation = [blank_title_slide],
            saved = (if disk_ok then Some [blank_title_slide] else None),
            notes_file = None\<rparr>"
proof -
  have t: "find_all_paths [''h1'', ''h2'', ''p''] content_div = []"
    using assms title_names_interesting by (rule find_all_paths_mono)
  show ?thesis
    unfolding create_enhanced_presentation_def
    by (simp add: t assms or_else_def blank_title process_content_elements_def start_pass_def
          init_notes_empty)
qed

text \<open>
  Claim C1 as stated fails: for a \<^verbatim>\<open>div\<close> holding only text the deck is the title
  slide and nothing else.
\<close>

theorem no_interesting_nodes_counterexample:
  "find_all_paths interesting (Tag ''div'' [] [NavigableString ''plain text'']) = []
   \<and> returned (create_enhanced_presentation default_config [] True init_generator
                 (Tag ''div'' [] [NavigableString ''plain text'']))
   \<and> map title (presentation (create_enhanced_presentation default_config [] True init_generator
                 (Tag ''div'' [] [NavigableString ''plain text'']))) = ['' '']"
  by code_simp

theorem no_interesting_nodes_witness:
  "find_all_paths interesting (Tag ''div'' [] [NavigableString ''plain text'']) = []
   \<and> create_enhanced_presentation default_config [] True init_generator
        (Tag ''div'' [] [NavigableString ''plain text''])
      = \<lparr>returned = True, generator_after = init_generator\<lparr>slide_count := 1\<rparr>,
            presentation = [blank_title_slide],
            saved = Some [blank_title_slide],
            notes_file = None\<rparr>"
proof -
  have a: "find_all_paths interesting (Tag ''div'' [] [NavigableString ''plain text'']) = []"
    by code_simp
  show ?thesis
    using no_interesting_nodes_title_slide_only [OF a, of default_config "[]" True] a by simp
qed

section \<open>Heading, note paragraph and table\<close>

text \<open>
  Claim C2 as stated fails: whatever the level of the heading, the note is taken
  by title extraction and recorded for slide 1; and an \<^verbatim>\<open>h1\<close> heading becomes the
  title of the deck, so that the slide with the table is titled "Content".
\<close>

theorem intro_document_counterexample:
  "speaker_notes_txt (generator_after
      (create_enhanced_presentation default_config [] True init_generator (intro_document ''h1'')))
   = [(1, ''remember the demo'')]
   \<and> map title (presentation
        (create_enhanced_presentation default_config [] True init_generator (intro_document ''h1'')))
     = [''Intro'', ''Content'']"
  by code_simp

text \<open>
  Claim C2, amended. With an \<^verbatim>\<open>h1\<close> heading the deck is the title slide "Intro",
  which carries the note, and one slide "Content" with the table of two rows and
  two columns. With an \<^verbatim>\<open>h3\<close> heading it is a title slide with the placeholder
  title, which carries the note, and one slide "Intro" with the table. In both
  decks the text frame of either slide holds its one empty paragraph and nothing
  else: the "Hello" before the marker appears nowhere. In both the notes list is
  the one entry of slide 1 with the text "remember the demo".
\<close>

theorem intro_document_outcome:
  "presentation (create_enhanced_presentation default_config [] True init_generator (intro_document ''h1''))
   = [\<lparr>layout = 0, title = ''Intro'', paragraphs = [Plain []], tables = [],
       notes_text = Some ''remember the demo''\<rparr>,
      \<lparr>layout = 1, title = ''Content'', paragraphs = [Plain []],
       tables = [\<lparr>grid = [[''a'', ''b''], [''c'', ''d'']], header_styled = False\<rparr>],
       notes_text = None\<rparr>]
   \<and> speaker_notes_txt (generator_after
        (create_enhanced_presentation default_config [] True init_generator (intro_document ''h1'')))
     = [(1::nat, ''remember the demo'')]
   \<and> presentation (create_enhanced_presentation default_config [] True init_generator (intro_document ''h3''))
   = [\<lparr>layout = 0, title = '' '', paragraphs = [Plain []], tables = [],
       notes_text = Some ''remember the demo''\<rparr>,
      \<lparr>layout = 1, title = ''Intro'', paragraphs = [Plain []],
       tables = [\<lparr>grid = [[''a'', ''b''], [''c'', ''d'']], header_styled = False\<rparr>],
       notes_text = None\<rparr>]
   \<and> speaker_notes_txt (generator_after
        (create_enhanced_presentation default_config [] True init_generator (intro_document ''h3'')))
     = [(1::nat, ''remember the demo'')]"
  by code_simp

section \<open>Tables\<close>

lemma maximum_pos: "ns \<noteq> [] \<Longrightarrow> \<forall>n \<in> set ns. 0 < n \<Longrightarrow> 0 < maximum ns"
  unfolding maximum_def by (induction ns) auto

text \<open>
  Claim C5, amended. For a table in which some row has a cell, one table is added
  to the slide. Its grid has one row for every \<^verbatim>\<open>tr\<close> of the table, the rows
  without cells included; every row has as many columns as the longest row has
  cells; a cell holds the first 200 characters of the text of the cell of the
  source, or the empty string where the source row is shorter.
\<close>

theorem table_grid_keeps_every_row:
  assumes "\<exists>row \<in> set (find_all [''tr''] t). cells row \<noteq> []"
  shows "\<exists>tb. add_table_to_slide deck i t = deck[i := (deck ! i)\<lparr>tables := tables (deck ! i) @ [tb]\<rparr>]
           \<and> length (grid tb) = length (find_all [''tr''] t)
           \<and> (\<forall>r < length (find_all [''tr''] t).
                 grid tb ! r
                 = map (\<lambda>j. if j < length (cells (find_all [''tr''] t ! r))
                             then take 200 (get_text (cells (find_all [''tr''] t ! r) ! j)) else [])
                     [0 ..< maximum (map (\<lambda>row. length (cells row))
                                     (filter (\<lambda>row. cells row \<noteq> []) (find_all [''tr''] t)))])"
proof -
  let ?rows = "find_all [''tr''] t"
  let ?valid = "filter (\<lambda>row. cells row \<noteq> []) ?rows"
  let ?cols = "maximum (map (\<lambda>row. length (cells row)) ?valid)"
  from assms have ne: "?rows \<noteq> []" by auto
  from assms have vne: "?valid \<noteq> []" by (auto simp: filter_empty_conv)
  have "0 < ?cols"
    by (rule maximum_pos) (use vne in auto)
  then have c: "?cols \<noteq> 0" by simp
  let ?tb = "\<lparr>grid = map (\<lambda>row. map (cell_text row) [0..<?cols]) ?rows,
              header_styled = (\<exists>c \<in> set (cells (hd ?rows)). tag_name c = ''th'')\<rparr>"
  have 1: "add_table_to_slide deck i t = deck[i := (deck ! i)\<lparr>tables := tables (deck ! i) @ [?tb]\<rparr>]"
    using ne vne c by (simp add: add_table_to_slide_def Let_def)
  have 2: "length (grid ?tb) = length ?rows" by simp
  have 3: "\<forall>r < length ?rows. grid ?tb ! r
             = map (\<lambda>j. if j < length (cells (?rows ! r))
                         then take 200 (get_text (cells (?rows ! r) ! j)) else []) [0 ..< ?cols]"
    by (simp add: cell_text_def)
  from 1 2 3 show ?thesis by blast
qed

theorem table_grid_keeps_every_row_witness:
  "(\<exists>row \<in> set (find_all [''tr''] ragged_table). cells row \<noteq> [])
   \<and> (\<exists>tb. add_table_to_slide [content_slide ''T'' [Plain []]] 0 ragged_table
             = [content_slide ''T'' [Plain []]]
                 [0 := ([content_slide ''T'' [Plain []]] ! 0)
                         \<lparr>tables := tables ([content_slide ''T'' [Plain []]] ! 0) @ [tb]\<rparr>]
           \<and> length (grid tb) = length (find_all [''tr''] ragged_table))"
proof -
  have h: "\<exists>row \<in> set (find_all [''tr''] ragged_table). cells row \<noteq> []"
    by code_simp
  from table_grid_keeps_every_row [OF h, of "[content_slide ''T'' [Plain []]]" 0]
  obtain tb where
    "add_table_to_slide [content_slide ''T'' [Plain []]] 0 ragged_table
      = [content_slide ''T'' [Plain []]]
          [0 := ([content_slide ''T'' [Plain []]] ! 0)
                  \<lparr>tables := tables ([content_slide ''T'' [Plain []]] ! 0) @ [tb]\<rparr>]"
    and "length (grid tb) = length (find_all [''tr''] ragged_table)"
    by blast
  with h show ?thesis by blast
qed

text \<open>
  Claim C5 as stated fails: rows of 3, 1, 0 and 2 cells give a grid of four rows,
  the third being three empty strings.
\<close>

theorem ragged_table_counterexample:
  "map (\<lambda>row. length (cells row)) (find_all [''tr''] ragged_table) = [3, 1, 0, 2]
   \<and> map grid (tables (add_table_to_slide [content_slide ''T'' [Plain []]] 0 ragged_table ! 0))
     = [[[''a'', ''b'', ''c''], [''d'', [], []], [[], [], []], [''e'', ''f'', []]]]"
  by code_simp

section \<open>The notes file\<close>

lemma remdups_skip: "x \<in> set bs \<Longrightarrow> remdups (as @ x # bs) = remdups (as @ bs)"
  by (induction as) auto

lemma clean_notes_spec:
  "distinct acc \<Longrightarrow> clean_notes acc (set acc) ns = first_occurrences (acc @ entries ns)"
proof (induction ns arbitrary: acc)
  case Nil
  then show ?case by (simp add: first_occurrences_def entries_def distinct_remdups_id)
next
  case (Cons e ns)
  obtain n t where e: "e = (n, t)" by (cases e)
  show ?case
  proof (cases "strip t \<noteq> [] \<and> (n, strip t) \<notin> set acc")
    case True
    then have d: "distinct (acc @ [(n, strip t)])" using Cons.prems by simp
    have "clean_notes acc (set acc) (e # ns)
          = clean_notes (acc @ [(n, strip t)]) (set (acc @ [(n, strip t)])) ns"
      using True e by simp
    also have "\<dots> = first_occurrences ((acc @ [(n, strip t)]) @ entries ns)"
      using Cons.IH [OF d] .
    also have "\<dots> = first_occurrences (acc @ entries (e # ns))"
      using True e by (simp add: entries_def)
    finally show ?thesis .
  next
    case False
    then have c: "clean_notes acc (set acc) (e # ns) = clean_notes acc (set acc) ns"
      using e by auto
    show ?thesis
    proof (cases "strip t = []")
      case True
      then have "entries (e # ns) = entries ns" using e by (simp add: entries_def)
      then show ?thesis using c Cons.IH [OF Cons.prems] by simp
    next
      case nonempty: False
      with False have m: "(n, strip t) \<in> set acc" by simp
      have "entries (e # ns) = (n, strip t) # entries ns"
        using nonempty e by (simp add: entries_def)
      then have "first_occurrences (acc @ entries (e # ns))
                 = rev (remdups (rev (entries ns) @ (n, strip t) # rev acc))"
        by (simp add: first_occurrences_def)
      also have "\<dots> = rev (remdups (rev (entries ns) @ rev acc))"
        using m by (simp add: remdups_skip)
      also have "\<dots> = first_occurrences (acc @ entries ns)"
        by (simp add: first_occurrences_def)
      finally show ?thesis using c Cons.IH [OF Cons.prems] by simp
    qed
  qed
qed

text \<open>
  Claim C8, amended. The notes file holds one block for every distinct pair of
  slide number and trimmed text in the list, in the order of first occurrence,
  pairs with an empty text left out; a block is "Slide N:", a line feed, the
  trimmed text and two line feeds.
\<close>

theorem notes_file_one_block_per_entry:
  "save_speaker_notes_textfile ns
   = concat (map (\<lambda>e. ''Slide '' @ str_nat (fst e) @ '':'' @ [CHR 0x0A] @ snd e @ [CHR 0x0A, CHR 0x0A])
               (first_occurrences (entries ns)))"
proof -
  have c: "clean_notes [] {} ns = first_occurrences (entries ns)"
    using clean_notes_spec [of "[]" ns] by simp
  have s: "\<forall>e \<in> set (first_occurrences (entries ns)). strip (snd e) = snd e"
    by (auto simp: first_occurrences_def entries_def strip_strip)
  show ?thesis
    unfolding save_speaker_notes_textfile_def c
    using s by (intro arg_cong [where f = concat] map_cong) (auto simp: note_block_def)
qed

text \<open>
  Claim C8 as stated fails: two notes met below one heading are both recorded
  for slide 2, and the file holds two blocks for that slide.
\<close>

theorem notes_file_counterexample:
  "speaker_notes_txt (generator_after
      (create_enhanced_presentation default_config [] True init_generator two_notes_document))
   = [(2, ''first''), (2, ''second'')]
   \<and> notes_file (create_enhanced_presentation default_config [] True init_generator two_notes_document)
     = Some (''Slide 2:'' @ [CHR 0x0A] @ ''first'' @ [CHR 0x0A, CHR 0x0A]
             @ ''Slide 2:'' @ [CHR 0x0A] @ ''second'' @ [CHR 0x0A, CHR 0x0A])"
  by code_simp

section \<open>Sanitized file names\<close>

lemma substitutions_keep_fullwidth_colon: "sub_spaces (map (\<lambda>c. if c \<in> set dangerous then 0x5F else c) [0x61, 0xFF1A, 0x62])
             = [0x61, 0xFF1A, 0x62]"
  by (simp add: dangerous_def uspace_def)

lemma substitutions_keep_diaeresis: "sub_spaces (map (\<lambda>c. if c \<in> set dangerous then 0x5F else c) [0x61, 0xA8, 0x62])
             = [0x61, 0xA8, 0x62]"
  by (simp add: dangerous_def uspace_def)

lemma colon_survives_filter_and_cut: "(let f4 = filter (\<lambda>c. c < 128) [0x61, 0x3A, 0x62 :: nat];
          f5 = (if int (length f4) > 100 - 5 then slice_to f4 (100 - 5) else f4)
      in if f5 = [] then canvas_export else f5) = [0x61, 0x3A, 0x62]"
  by (simp add: Let_def)

lemma space_survives_filter_and_cut: "(let f4 = filter (\<lambda>c. c < 128) [0x61, 0x20, 0x308, 0x62 :: nat];
          f5 = (if int (length f4) > 100 - 5 then slice_to f4 (100 - 5) else f4)
      in if f5 = [] then canvas_export else f5) = [0x61, 0x20, 0x62]"
  by (simp add: Let_def)

text \<open>
  Claim C9 says that the sanitized name holds no character of the dangerous
  class and no whitespace. The two substitutions run before the normalization,
  so what the normalization produces is not replaced: a fullwidth colon leaves a
  colon in the name, a diaeresis leaves a space.
\<close>

theorem sanitize_lets_decomposed_characters_through:
  assumes "nfkd [0x61, 0xFF1A, 0x62] = [0x61, 0x3A, 0x62]"
    and "nfkd [0x61, 0xA8, 0x62] = [0x61, 0x20, 0x308, 0x62]"
  shows "sanitize nfkd [0x61, 0xFF1A, 0x62] 100 = [0x61, 0x3A, 0x62]
         \<and> sanitize nfkd [0x61, 0xA8, 0x62] 100 = [0x61, 0x20, 0x62]"
proof -
  have 1: "sanitize nfkd [0x61, 0xFF1A, 0x62] 100 = [0x61, 0x3A, 0x62]"
    unfolding sanitize_def Let_def substitutions_keep_fullwidth_colon assms(1) by (simp add: Let_def)
  have 2: "sanitize nfkd [0x61, 0xA8, 0x62] 100 = [0x61, 0x20, 0x62]"
    unfolding sanitize_def Let_def substitutions_keep_diaeresis assms(2) by (simp add: Let_def)
  from 1 2 show ?thesis by (rule conjI)
qed

theorem sanitize_lets_decomposed_characters_through_witness:
  "nfkd_excerpt [0x61, 0xFF1A, 0x62] = [0x61, 0x3A, 0x62]
   \<and> nfkd_excerpt [0x61, 0xA8, 0x62] = [0x61, 0x20, 0x308, 0x62]
   \<and> sanitize nfkd_excerpt [0x61, 0xFF1A, 0x62] 100 = [0x61, 0x3A, 0x62]
   \<and> sanitize nfkd_excerpt [0x61, 0xA8, 0x62] 100 = [0x61, 0x20, 0x62]
   \<and> 0x3A \<in> set dangerous \<and> uspace 0x20"
proof -
  have a: "nfkd_excerpt [0x61, 0xFF1A, 0x62] = [0x61, 0x3A, 0x62]"
    unfolding nfkd_excerpt_def by simp
  have b: "nfkd_excerpt [0x61, 0xA8, 0x62] = [0x61, 0x20, 0x308, 0x62]"
    by (simp add: nfkd_excerpt_def)
  have c: "0x3A \<in> set dangerous \<and> uspace 0x20"
    by (simp add: dangerous_def uspace_def)
  show ?thesis
    using sanitize_lets_decomposed_characters_through [OF a b] a b c by simp
qed


section \<open>No key twice in the notes list\<close>

subsection \<open>Steps that leave the notes alone\<close>

lemma same_notes_refl: "same_notes g g"
  by (simp add: same_notes_def)

lemma same_notes_trans: "same_notes a b \<Longrightarrow> same_notes b c \<Longrightarrow> same_notes a c"
  by (simp add: same_notes_def)

lemma same_notes_inv: "same_notes g g' \<Longrightarrow> dedup_inv g \<Longrightarrow> dedup_inv g'"
  by (simp add: same_notes_def dedup_inv_def)

lemma same_notes_mark: "same_notes (gen st) (gen (mark el st))"
  by (simp add: same_notes_def mark_def)

lemma same_notes_prs: "same_notes (gen st) (gen (st\<lparr>prs := deck\<rparr>))"
  by (simp add: same_notes_def)

lemma gen_update4: "gen (st\<lparr>gen := g, prs := p, current_slide := c, content_box := b\<rparr>) = g"
  by simp

lemma gen_add_content_slide:
  "gen (add_content_slide st t) = (gen st)\<lparr>slide_count := slide_count (gen st) + 1\<rparr>"
  by (simp only: add_content_slide_def Let_def gen_update4)

lemma same_notes_add_content_slide: "same_notes (gen st) (gen (add_content_slide st t))"
  by (simp add: same_notes_def gen_add_content_slide)


lemma same_notes_ensure_slide:
  assumes "ensure_slide st t = (i, b, st1)"
  shows "same_notes (gen st) (gen st1)"
proof (cases "current_slide st")
  case None
  with assms have "st1 = add_content_slide st t" by (auto simp: ensure_slide_def)
  then show ?thesis by (simp add: same_notes_add_content_slide)
next
  case (Some j)
  with assms have "st1 = st\<lparr>content_box := Some (Placeholder j)\<rparr>" by (auto simp: ensure_slide_def)
  then show ?thesis by (simp add: same_notes_def)
qed

lemma same_notes_flush: "flush_code_buffer cfg st = (e, st1) \<Longrightarrow> same_notes (gen st) (gen st1)"
proof (cases "code_buffer st = []")
  case True
  assume "flush_code_buffer cfg st = (e, st1)"
  with True have "st1 = st" by (simp add: flush_code_buffer_def)
  then show ?thesis by (simp add: same_notes_refl)
next
  case False
  assume f: "flush_code_buffer cfg st = (e, st1)"
  obtain i b s1 where en: "ensure_slide st ''Content'' = (i, b, s1)"
    by (cases "ensure_slide st ''Content''") auto
  obtain e' d where ac: "add_code_content cfg (prs s1) b (PyStr (join [CHR 0x0A] (code_buffer s1))) = (e', d)"
    by (cases "add_code_content cfg (prs s1) b (PyStr (join [CHR 0x0A] (code_buffer s1)))") auto
  have "gen st1 = gen s1"
    using f False en ac by (cases e') (auto simp: flush_code_buffer_def)
  with same_notes_ensure_slide [OF en] show ?thesis by simp
qed

lemma same_notes_remaining:
  "remaining_code_buffer cfg st = (e, st1) \<Longrightarrow> same_notes (gen st) (gen st1)"
proof (cases "code_buffer st = []")
  case True
  assume "remaining_code_buffer cfg st = (e, st1)"
  with True have "st1 = st" by (simp add: remaining_code_buffer_def)
  then show ?thesis by (simp add: same_notes_refl)
next
  case False
  assume f: "remaining_code_buffer cfg st = (e, st1)"
  obtain i b s1 where en: "ensure_slide st ''Content'' = (i, b, s1)"
    by (cases "ensure_slide st ''Content''") auto
  obtain e' d where ac: "add_code_content cfg (prs s1) b (PyStr (join [CHR 0x0A] (code_buffer s1))) = (e', d)"
    by (cases "add_code_content cfg (prs s1) b (PyStr (join [CHR 0x0A] (code_buffer s1)))") auto
  have "gen st1 = gen s1"
    using f False en ac by (auto simp: remaining_code_buffer_def)
  with same_notes_ensure_slide [OF en] show ?thesis by simp
qed


lemma same_notes_heading:
  assumes "remaining_code_buffer cfg (mark el (add_content_slide st t)) = (e, st1)"
  shows "same_notes (gen st) (gen st1)"
  using same_notes_trans [OF same_notes_add_content_slide
          same_notes_trans [OF same_notes_mark same_notes_remaining [OF assms]]] .

lemma same_notes_other:
  assumes "remaining_code_buffer cfg (mark el st) = (e, st1)"
  shows "same_notes (gen st) (gen st1)"
  using same_notes_trans [OF same_notes_mark same_notes_remaining [OF assms]] .

lemma same_notes_list:
  assumes "(case ensure_slide st t of
              (i, cbox, s1) \<Rightarrow>
                (case add_list_content (prs s1) cbox x of
                   (e, deck) \<Rightarrow> (None, mark el (s1\<lparr>prs := deck\<rparr>)))) = (e', st1)"
  shows "same_notes (gen st) (gen st1)"
proof -
  obtain i b s1 where en: "ensure_slide st t = (i, b, s1)"
    by (cases "ensure_slide st t") auto
  obtain e d where al: "add_list_content (prs s1) b x = (e, d)"
    by (cases "add_list_content (prs s1) b x") auto
  from assms en al have "st1 = mark el (s1\<lparr>prs := d\<rparr>)" by simp
  then have "gen st1 = gen s1" by (simp add: mark_def)
  with same_notes_ensure_slide [OF en] show ?thesis by simp
qed

lemma same_notes_table:
  assumes "(case ensure_slide st t of
              (i, cbox, s1) \<Rightarrow> (None, mark el (s1\<lparr>prs := f (prs s1) i\<rparr>))) = (e', st1)"
  shows "same_notes (gen st) (gen st1)"
proof -
  obtain i b s1 where en: "ensure_slide st t = (i, b, s1)"
    by (cases "ensure_slide st t") auto
  from assms en have "st1 = mark el (s1\<lparr>prs := f (prs s1) i\<rparr>)" by simp
  then have "gen st1 = gen s1" by (simp add: mark_def)
  with same_notes_ensure_slide [OF en] show ?thesis by simp
qed

lemma same_notes_pre:
  assumes "(case ensure_slide st t of
              (i, cbox, s1) \<Rightarrow>
                (case add_code_content cfg (prs s1) cbox x of
                   (None, deck) \<Rightarrow> (None, s1\<lparr>prs := deck\<rparr>)
                 | (Some e, deck) \<Rightarrow> (None, mark el (s1\<lparr>prs := deck\<rparr>)))) = (e', st1)"
  shows "same_notes (gen st) (gen st1)"
proof -
  obtain i b s1 where en: "ensure_slide st t = (i, b, s1)"
    by (cases "ensure_slide st t") auto
  obtain e d where ac: "add_code_content cfg (prs s1) b x = (e, d)"
    by (cases "add_code_content cfg (prs s1) b x") auto
  from assms en ac have "gen st1 = gen s1" by (cases e) (auto simp: mark_def)
  with same_notes_ensure_slide [OF en] show ?thesis by simp
qed


lemma if_chain9:
  assumes "(if c1 then a1 else if c2 then a2 else if c3 then a3 else if c4 then a4
            else if c5 then a5 else if c6 then a6 else if c7 then a7 else if c8 then a8
            else a9) = r"
    and "a1 = r \<Longrightarrow> P" and "a2 = r \<Longrightarrow> P" and "a3 = r \<Longrightarrow> P" and "a4 = r \<Longrightarrow> P"
    and "a5 = r \<Longrightarrow> P" and "a6 = r \<Longrightarrow> P" and "a7 = r \<Longrightarrow> P" and "a8 = r \<Longrightarrow> P"
    and "a9 = r \<Longrightarrow> P"
  shows P
  using assms by (auto split: if_split_asm)

lemma same_notes_handle_element:
  assumes "handle_element cfg outer root st el = (e, st1)"
  shows "same_notes (gen st) (gen st1)"
  apply (rule if_chain9 [OF assms [unfolded handle_element_def Let_def]])
  subgoal using same_notes_mark [of st el] by auto
  subgoal using same_notes_mark [of st el] by auto
  subgoal using same_notes_mark [of st el] by auto
  subgoal using same_notes_mark [of st el] by auto
  subgoal by (erule same_notes_heading)
  subgoal by (erule same_notes_list)
  subgoal by (erule same_notes_table)
  subgoal by (erule same_notes_pre)
  subgoal by (erule same_notes_other)
  done

subsection \<open>Steps that add a note\<close>

lemma dedup_inv_append:
  assumes "dedup_inv g" and "k \<notin> notes_seen g"
  shows "dedup_inv (g\<lparr>speaker_notes_txt := speaker_notes_txt g @ [k],
                       notes_seen := insert k (notes_seen g)\<rparr>)"
  using assms by (auto simp: dedup_inv_def)

lemma dedup_inv_slide_count: "dedup_inv (g\<lparr>slide_count := n\<rparr>) = dedup_inv g"
  by (simp add: dedup_inv_def)

lemma dedup_inv_attach_notes:
  assumes "dedup_inv (gen st)"
  shows "dedup_inv (gen (attach_notes st notes_part))"
proof (cases "current_slide st")
  case None
  then show ?thesis using assms by (simp add: attach_notes_def)
next
  case (Some i)
  show ?thesis
  proof (cases "strip notes_part \<noteq> [] \<and> (slide_count (gen st), strip notes_part) \<notin> notes_seen (gen st)")
    case True
    then show ?thesis
      using Some dedup_inv_append [OF assms, of "(slide_count (gen st), strip notes_part)"]
      by (simp add: attach_notes_def Let_def)
  next
    case False
    then show ?thesis using Some assms by (auto simp: attach_notes_def Let_def)
  qed
qed

lemma dedup_inv_process_element:
  assumes "dedup_inv (gen st)" and "process_element cfg outer root st el = (e, st1)"
  shows "dedup_inv (gen st1)"
proof (cases "el \<in> processed_elements st")
  case True
  with assms show ?thesis by (simp add: process_element_def)
next
  case seen: False
  show ?thesis
  proof (cases "split_marker (el_text root el)")
    case (Some parts)
    obtain content_part notes_part where "parts = (content_part, notes_part)"
      by (cases parts) auto
    with assms(2) seen Some have "st1 = mark el (attach_notes st notes_part)"
      by (simp add: process_element_def)
    then show ?thesis
      using same_notes_inv [OF same_notes_mark dedup_inv_attach_notes [OF assms(1)]] by simp
  next
    case None
    show ?thesis
    proof (cases "el_name root el = ''div'' \<and> ''cm-line'' \<in> set (el_class root el)")
      case True
      with assms(2) seen None
      have "gen st1 = gen st" by (auto simp: process_element_def mark_def)
      with assms(1) show ?thesis by simp
    next
      case False
      obtain e' s1 where fl: "flush_code_buffer cfg st = (e', s1)"
        by (cases "flush_code_buffer cfg st") auto
      have inv1: "dedup_inv (gen s1)"
        using same_notes_inv [OF same_notes_flush [OF fl] assms(1)] .
      show ?thesis
      proof (cases e')
        case (Some err)
        with assms(2) seen None False fl have "st1 = s1" by (simp add: process_element_def)
        with inv1 show ?thesis by simp
      next
        case no_error: None
        with assms(2) seen None False fl
        have "handle_element cfg outer root s1 el = (e, st1)" by (simp add: process_element_def)
        from same_notes_inv [OF same_notes_handle_element [OF this] inv1] show ?thesis .
      qed
    qed
  qed
qed

lemma dedup_inv_process_elements:
  "dedup_inv (gen st) \<Longrightarrow> process_elements cfg outer root st els = (e, st1)
   \<Longrightarrow> dedup_inv (gen st1)"
proof (induction els arbitrary: st)
  case Nil
  then show ?case by simp
next
  case (Cons el els)
  obtain e' s1 where pe: "process_element cfg outer root st el = (e', s1)"
    by (cases "process_element cfg outer root st el") auto
  have inv1: "dedup_inv (gen s1)"
    using dedup_inv_process_element [OF Cons.prems(1) pe] .
  show ?case
  proof (cases e')
    case None
    with Cons.prems(2) pe have "process_elements cfg outer root s1 els = (e, st1)" by simp
    from Cons.IH [OF inv1 this] show ?thesis .
  next
    case (Some err)
    with Cons.prems(2) pe have "st1 = s1" by simp
    with inv1 show ?thesis by simp
  qed
qed

lemma dedup_inv_add_custom_title_slide:
  assumes "dedup_inv g" and "add_custom_title_slide g deck h s n = (g1, deck1)"
  shows "dedup_inv g1"
proof (cases "n \<noteq> [] \<and> (length deck + 1, strip n) \<notin> notes_seen g \<and> strip n \<noteq> []")
  case True
  with assms(2)
  have "g1 = (g\<lparr>speaker_notes_txt := speaker_notes_txt g @ [(length deck + 1, strip n)],
                  notes_seen := insert (length deck + 1, strip n) (notes_seen g)\<rparr>)
               \<lparr>slide_count := slide_count g + 1\<rparr>"
    by (auto simp: add_custom_title_slide_def Let_def)
  with True dedup_inv_append [OF assms(1), of "(length deck + 1, strip n)"]
  show ?thesis by (simp add: dedup_inv_slide_count)
next
  case False
  with assms(2) have "g1 = g\<lparr>slide_count := slide_count g + 1\<rparr>"
    by (auto simp: add_custom_title_slide_def Let_def)
  with assms(1) show ?thesis by (simp add: dedup_inv_slide_count)
qed

lemma dedup_inv_create_enhanced_presentation:
  assumes "dedup_inv g"
  shows "dedup_inv (generator_after (create_enhanced_presentation cfg outer disk_ok g content_div))"
proof -
  define ts where "ts = extract_title \<lparr>tree = content_div, heading = None, subheading = None,
                               speaker_notes = None\<rparr>
                 (find_all_paths [''h1'', ''h2'', ''p''] content_div)"
  obtain g1 deck1 where ti: "add_custom_title_slide g [] (or_else (heading ts) '' '')
                (or_else (subheading ts) '' '') (or_else (speaker_notes ts) []) = (g1, deck1)"
    by (cases "add_custom_title_slide g [] (or_else (heading ts) '' '')
                (or_else (subheading ts) '' '') (or_else (speaker_notes ts) [])") auto
  obtain e st where pc: "process_content_elements cfg outer g1 deck1 (tree ts) = (e, st)"
    by (cases "process_content_elements cfg outer g1 deck1 (tree ts)") auto
  have inv1: "dedup_inv g1"
    using dedup_inv_add_custom_title_slide [OF assms ti] .
  have "dedup_inv (gen (start_pass g1 deck1))"
    using inv1 by (simp add: start_pass_def)
  from dedup_inv_process_elements [OF this pc [unfolded process_content_elements_def]]
  have inv2: "dedup_inv (gen st)" .
  show ?thesis
  proof (cases e)
    case (Some err)
    with ti pc inv2 show ?thesis
      by (simp add: create_enhanced_presentation_def Let_def ts_def [symmetric])
  next
    case None
    with ti pc inv2 show ?thesis
      by (simp add: create_enhanced_presentation_def Let_def ts_def [symmetric]
            add_fallback_slide_def dedup_inv_slide_count)
  qed
qed

text \<open>
  Claim C7. Whatever the document, the configuration and the elements above the
  document, and whether or not the deck can be saved: if the notes list of the
  generator holds no key twice and all its keys are in the set of keys seen (as
  in a new generator, where both are empty), then the same is true of the
  generator after the conversion. A key is the slide number paired with the
  trimmed text of the note. Both places that append to the list, the title slide
  and the interception in the main pass, append a key only when it is not in the
  set, and add it to the set; every other step of the conversion leaves list and
  set as they are. The lemmas above show the same of each step on its own: of the
  title slide, of one turn of the loop, and of the loop over any list of
  elements, from any state.
\<close>

theorem notes_list_never_holds_a_key_twice:
  assumes "distinct (speaker_notes_txt g)" and "set (speaker_notes_txt g) \<subseteq> notes_seen g"
  shows "distinct (speaker_notes_txt (generator_after
           (create_enhanced_presentation cfg outer disk_ok g content_div)))
         \<and> set (speaker_notes_txt (generator_after
                  (create_enhanced_presentation cfg outer disk_ok g content_div)))
           \<subseteq> notes_seen (generator_after
                 (create_enhanced_presentation cfg outer disk_ok g content_div))"
  using dedup_inv_create_enhanced_presentation [of g cfg outer disk_ok content_div] assms
  by (simp add: dedup_inv_def)

text \<open>
  The theorem at a new generator and a document that gives the same note for
  slide 2 twice: the list has the one entry.
\<close>

theorem notes_list_never_holds_a_key_twice_witness:
  "distinct (speaker_notes_txt init_generator)
   \<and> set (speaker_notes_txt init_generator) \<subseteq> notes_seen init_generator
   \<and> speaker_notes_txt (generator_after
        (create_enhanced_presentation default_config [] True init_generator same_note_twice))
     = [(2, ''same'')]
   \<and> distinct (speaker_notes_txt (generator_after
        (create_enhanced_presentation default_config [] True init_generator same_note_twice)))"
proof -
  have a: "distinct (speaker_notes_txt init_generator)"
    by (simp add: init_generator_def)
  have b: "set (speaker_notes_txt init_generator) \<subseteq> notes_seen init_generator"
    by (simp add: init_generator_def)
  have c: "speaker_notes_txt (generator_after
        (create_enhanced_presentation default_config [] True init_generator same_note_twice))
     = [(2, ''same'')]"
    by code_simp
  show ?thesis
    using notes_list_never_holds_a_key_twice [OF a b, of default_config "[]" True same_note_twice]
      a b c by simp
qed

section \<open>Runs of code lines\<close>










text \<open>
  The theorem asks for a current slide. Where the run is met before any slide is
  open, \<^verbatim>\<open>_ensure_slide\<close> opens the slide "Content" and hands on its text frame,
  \<^verbatim>\<open>content_box.text_frame\<close> raises, and the conversion returns \<^verbatim>\<open>False\<close> with
  nothing saved.
\<close>

lemma code_run_before_any_slide:
  "returned (create_enhanced_presentation default_config [] True init_generator
     (Tag ''div'' [] [code_line ''a'', text_tag ''blockquote'' ''after''])) = False
   \<and> saved (create_enhanced_presentation default_config [] True init_generator
     (Tag ''div'' [] [code_line ''a'', text_tag ''blockquote'' ''after''])) = None
   \<and> presentation (create_enhanced_presentation default_config [] True init_generator
     (Tag ''div'' [] [code_line ''a'', text_tag ''blockquote'' ''after'']))
     = [blank_title_slide, content_slide ''Content'' [Plain []]]"
  by code_simp

end
